theory Spec2Isabelle
  imports Complex_Main
begin

section \<open>The PPV calculator of \<^verbatim>\<open>src/App.tsx\<close>\<close>

text \<open>
  The program is one React component. Its state is three percentages; from them it derives
  three fractions, the positive predictive value \<^verbatim>\<open>ppv\<close>, the text \<^verbatim>\<open>fmtPct(ppv)\<close> and the four
  cells of \<^verbatim>\<open>ConfusionOutline\<close>.

  Numbers. A JavaScript \<^verbatim>\<open>number\<close> is a finite value, \<^verbatim>\<open>NaN\<close> or one of the two infinities.
  The three parameters and the population are finite numbers, and the arithmetic on finite
  numbers is taken exact: they are values of type \<^typ>\<open>real\<close>, and the rounding, the overflow
  and the signed zero of IEEE doubles are outside the model. A place where the program
  produces or tests a value that is not finite has the type \<open>number\<close> below.
\<close>

subsection \<open>Numbers\<close>

datatype number = Num real | NaN | PosInfinity | NegInfinity

text \<open>\<^verbatim>\<open>Number.isFinite(x)\<close>\<close>

fun Number_isFinite :: "number \<Rightarrow> bool" where
  "Number_isFinite (Num r) = True"
| "Number_isFinite NaN = False"
| "Number_isFinite PosInfinity = False"
| "Number_isFinite NegInfinity = False"


text \<open>
  The product \<^verbatim>\<open>x * y\<close> of two numbers: \<^verbatim>\<open>NaN\<close> is absorbing, an infinity times zero is
  \<^verbatim>\<open>NaN\<close>, and an infinity times anything else is the infinity of the product's sign.
\<close>

fun number_times :: "number \<Rightarrow> number \<Rightarrow> number" where
  "number_times (Num a) (Num b) = Num (a * b)"
| "number_times NaN y = NaN"
| "number_times x NaN = NaN"
| "number_times PosInfinity (Num b) =
     (if b = 0 then NaN else if 0 < b then PosInfinity else NegInfinity)"
| "number_times NegInfinity (Num b) =
     (if b = 0 then NaN else if 0 < b then NegInfinity else PosInfinity)"
| "number_times (Num a) PosInfinity =
     (if a = 0 then NaN else if 0 < a then PosInfinity else NegInfinity)"
| "number_times (Num a) NegInfinity =
     (if a = 0 then NaN else if 0 < a then NegInfinity else PosInfinity)"
| "number_times PosInfinity PosInfinity = PosInfinity"
| "number_times PosInfinity NegInfinity = NegInfinity"
| "number_times NegInfinity PosInfinity = NegInfinity"
| "number_times NegInfinity NegInfinity = PosInfinity"

text \<open>
  The quotient \<^verbatim>\<open>a / b\<close> of two finite numbers. JavaScript does not raise on a zero divisor:
  \<^verbatim>\<open>0 / 0\<close> is \<^verbatim>\<open>NaN\<close> and any other \<^verbatim>\<open>a / 0\<close> is an infinity (of the sign of \<^verbatim>\<open>a\<close> for the
  zero that the model has).
\<close>

definition number_divide :: "real \<Rightarrow> real \<Rightarrow> number" where
  "number_divide a b =
     (if b = 0 then (if a = 0 then NaN else if 0 < a then PosInfinity else NegInfinity)
      else Num (a / b))"

text \<open>\<^verbatim>\<open>Math.round(x)\<close> on a finite number: the nearest integer, a tie going up.\<close>

definition Math_round :: "real \<Rightarrow> real" where
  "Math_round x = of_int \<lfloor>x + 1 / 2\<rfloor>"

subsection \<open>The Bayes evaluator\<close>

text \<open>
  \<^verbatim>\<open>
  const tp = sensitivity * prevalence;
  const fp = (1 - specificity) * (1 - prevalence);
  const denom = tp + fp;
  if (denom === 0) return NaN; // undefined case
  return tp / denom;
  \<close>
\<close>

definition ppv :: "real \<Rightarrow> real \<Rightarrow> real \<Rightarrow> number" where
  "ppv sensitivity specificity prevalence =
     (let tp = sensitivity * prevalence;
          fp = (1 - specificity) * (1 - prevalence);
          denom = tp + fp
      in if denom = 0 then NaN else number_divide tp denom)"

subsection \<open>The population projector\<close>

text \<open>
  \<^verbatim>\<open>
  const diseased = Math.round(population * prevalence);
  const healthy = population - diseased;
  const TP = Math.round(diseased * sensitivity);
  const FN = diseased - TP;
  const TN = Math.round(healthy * specificity);
  const FP = healthy - TN;
  \<close>
  The component renders the four cells; the model returns them.
\<close>

record cells =
  TP :: real
  FP :: real
  TN :: real
  FN :: real

definition ConfusionOutline :: "real \<Rightarrow> real \<Rightarrow> real \<Rightarrow> real \<Rightarrow> cells" where
  "ConfusionOutline sensitivity specificity prevalence population =
     (let diseased = Math_round (population * prevalence);
          healthy = population - diseased;
          tp = Math_round (diseased * sensitivity);
          fn = diseased - tp;
          tn = Math_round (healthy * specificity);
          fp = healthy - tn
      in \<lparr>TP = tp, FP = fp, TN = tn, FN = fn\<rparr>)"

subsection \<open>The parameter store\<close>

text \<open>
  The three \<^verbatim>\<open>useState\<close> cells of \<^verbatim>\<open>App\<close>, with their initial values 90, 95 and 5. A setter
  of \<^verbatim>\<open>useState\<close> replaces the value of its own cell.
\<close>

record params =
  sensitivityPct :: real
  specificityPct :: real
  prevalencePct :: real

definition init_params :: params where
  "init_params = \<lparr>sensitivityPct = 90, specificityPct = 95, prevalencePct = 5\<rparr>"

definition setSensitivityPct :: "real \<Rightarrow> params \<Rightarrow> params" where
  "setSensitivityPct v st = st\<lparr>sensitivityPct := v\<rparr>"

definition setSpecificityPct :: "real \<Rightarrow> params \<Rightarrow> params" where
  "setSpecificityPct v st = st\<lparr>specificityPct := v\<rparr>"

definition setPrevalencePct :: "real \<Rightarrow> params \<Rightarrow> params" where
  "setPrevalencePct v st = st\<lparr>prevalencePct := v\<rparr>"

text \<open>
  The three \<^verbatim>\<open>Control\<close> elements of \<^verbatim>\<open>App\<close>, in the order of the source. Each is given one
  setter as \<^verbatim>\<open>onChange\<close>; both of its inputs call \<^verbatim>\<open>onChange(Number(e.target.value))\<close>. The
  event carries the number entered.
\<close>

datatype control = SensitivityControl | SpecificityControl | PrevalenceControl

fun Control_onChange :: "control \<Rightarrow> real \<Rightarrow> params \<Rightarrow> params" where
  "Control_onChange SensitivityControl v st = setSensitivityPct v st"
| "Control_onChange SpecificityControl v st = setSpecificityPct v st"
| "Control_onChange PrevalenceControl v st = setPrevalencePct v st"

text \<open>The values \<^verbatim>\<open>App\<close> derives from its state on every render.\<close>

definition sensitivity :: "params \<Rightarrow> real" where
  "sensitivity st = sensitivityPct st / 100"

definition specificity :: "params \<Rightarrow> real" where
  "specificity st = specificityPct st / 100"

definition prevalence :: "params \<Rightarrow> real" where
  "prevalence st = prevalencePct st / 100"

definition App_ppv :: "params \<Rightarrow> number" where
  "App_ppv st = ppv (sensitivity st) (specificity st) (prevalence st)"

definition App_cells :: "params \<Rightarrow> cells" where
  "App_cells st = ConfusionOutline (sensitivity st) (specificity st) (prevalence st) 10000"

subsection \<open>The display formatter\<close>

text \<open>The decimal digits of a natural number, most significant first.\<close>

definition digit_char :: "nat \<Rightarrow> char" where
  "digit_char d = ''0123456789'' ! d"


fun decimal :: "nat \<Rightarrow> string" where
  "decimal n = (if n < 10 then [digit_char n] else decimal (n div 10) @ [digit_char (n mod 10)])"

declare decimal.simps [simp del]

text \<open>
  \<^verbatim>\<open>Number::toString\<close> where \<^verbatim>\<open>toFixed\<close> falls back on it, for a finite \<open>x\<close> from \<open>10^21\<close> on:
  the exponent notation, that is the first significant digit, then a point and the other
  significant digits if there are any, then \<^verbatim>\<open>e+\<close> and the decimal exponent. A double of
  this size is an integer. The digits are those of the exact value, trailing zeros
  dropped; a double prints the shortest digits that read back as itself, which are the
  same digits wherever the exact value has at most 17 significant ones.
\<close>

definition Number_toString_large :: "real \<Rightarrow> string" where
  "Number_toString_large x =
     (let digits = decimal (nat \<lfloor>x\<rfloor>);
          n = length digits;
          s = rev (dropWhile (\<lambda>ch. ch = CHR ''0'') (rev digits));
          k = length s;
          e = decimal (n - 1)
      in if k = 1 then s @ ''e+'' @ e
         else take 1 s @ ''.'' @ drop 1 s @ ''e+'' @ e)"

text \<open>
  \<^verbatim>\<open>Number.prototype.toFixed(fractionDigits)\<close>, as ECMAScript defines it. It raises
  \<^verbatim>\<open>RangeError\<close> for more than 100 fraction digits. A value that is not finite prints as its
  name. For a finite \<open>x\<close> the sign is split off; from \<open>10^21\<close> on the result is that of
  \<^verbatim>\<open>Number::toString\<close>; below, \<open>n\<close> is the integer nearest to \<open>x * 10^f\<close> (the larger of two),
  its digits are padded with zeros on the left to \<open>f + 1\<close> characters and the point is put
  before the last \<open>f\<close> of them.
\<close>

datatype exn = RangeError

definition insert_point :: "nat \<Rightarrow> string \<Rightarrow> string" where
  "insert_point f m0 =
     (let k = length m0;
          m = (if k \<le> f then replicate (f + 1 - k) (CHR ''0'') @ m0 else m0);
          k = (if k \<le> f then f + 1 else k)
      in take (k - f) m @ ''.'' @ drop (k - f) m)"

definition toFixed_finite :: "nat \<Rightarrow> real \<Rightarrow> string" where
  "toFixed_finite f x0 =
     (let s = (if x0 < 0 then ''-'' else '''');
          x = (if x0 < 0 then - x0 else x0)
      in if 10 ^ 21 \<le> x then s @ Number_toString_large x
         else
           let n = nat \<lfloor>x * 10 ^ f + 1 / 2\<rfloor>;
               m = (if n = 0 then ''0'' else decimal n);
               m = (if f \<noteq> 0 then insert_point f m else m)
           in s @ m)"

definition Number_toFixed :: "nat \<Rightarrow> number \<Rightarrow> exn + string" where
  "Number_toFixed f x =
     (if 100 < f then Inl RangeError
      else case x of
             Num r \<Rightarrow> Inr (toFixed_finite f r)
           | NaN \<Rightarrow> Inr ''NaN''
           | PosInfinity \<Rightarrow> Inr ''Infinity''
           | NegInfinity \<Rightarrow> Inr ''-Infinity'')"

text \<open>
  \<^verbatim>\<open>const fmtPct = (x) => (Number.isFinite(x) ? (x * 100).toFixed(2) + "%" : "n/a");\<close>
  An exception of \<^verbatim>\<open>toFixed\<close> would leave \<^verbatim>\<open>fmtPct\<close>: the result is the exception or the text.
\<close>

definition fmtPct :: "number \<Rightarrow> exn + string" where
  "fmtPct x =
     (if Number_isFinite x then
        (case Number_toFixed 2 (number_times x (Num 100)) of
           Inl e \<Rightarrow> Inl e
         | Inr t \<Rightarrow> Inr (t @ ''%''))
      else Inr ''n/a'')"



section \<open>Auxiliary facts\<close>

subsection \<open>The evaluator, by cases on the denominator\<close>



subsection \<open>Rounding a share of a count\<close>

lemma round_frac_nonneg:
  fixes f :: real
  assumes "0 \<le> d" "0 \<le> f"
  shows "0 \<le> \<lfloor>of_int d * f + 1 / 2\<rfloor>"
proof -
  have "0 \<le> of_int d * f + 1 / 2" using assms by simp
  then show ?thesis by simp
qed

lemma round_frac_le:
  fixes f :: real
  assumes "0 \<le> d" "f \<le> 1"
  shows "\<lfloor>of_int d * f + 1 / 2\<rfloor> \<le> d"
proof -
  have "of_int d * f \<le> of_int d" using assms by (simp add: mult_left_le)
  then have "of_int d * f + 1 / 2 < of_int (d + 1)" by simp
  then have "\<lfloor>of_int d * f + 1 / 2\<rfloor> < d + 1" by (simp only: floor_less_iff)
  then show ?thesis by simp
qed

text \<open>On a population that is a natural number every intermediate value is an integer.\<close>

lemma ConfusionOutline_ints:
  "ConfusionOutline s c p (of_nat N) =
     (let d = \<lfloor>of_int (int N) * p + 1 / 2\<rfloor>;
          h = int N - d;
          tp = \<lfloor>of_int d * s + 1 / 2\<rfloor>;
          tn = \<lfloor>of_int h * c + 1 / 2\<rfloor>
      in \<lparr>TP = of_int tp, FP = of_int (h - tn), TN = of_int tn, FN = of_int (d - tp)\<rparr>)"
  by (simp add: ConfusionOutline_def Math_round_def Let_def)

lemma of_int_nonneg_Nats: "0 \<le> k \<Longrightarrow> (of_int k :: real) \<in> \<nat>"
  by (simp add: Nats_altdef1)

subsection \<open>Decimal digits\<close>









subsection \<open>Two fraction digits\<close>






section \<open>Properties\<close>

subsection \<open>The Bayes evaluator\<close>








text \<open>
  C6. For sensitivity 0.90, specificity 0.95 and prevalence 0.05, \<^verbatim>\<open>ppv\<close> returns
  \<open>0.045 / 0.0925\<close>, which is 0.486486 to six decimals and is displayed as 48.65%. These
  are the values \<^verbatim>\<open>App\<close> starts with.
\<close>

theorem ppv_default_example:
  "ppv 0.90 0.95 0.05 = Num (0.045 / 0.0925)
   \<and> App_ppv init_params = Num (0.045 / 0.0925)
   \<and> \<bar>0.045 / 0.0925 - 0.486486\<bar> < (1 / 10 ^ 6 :: real)
   \<and> fmtPct (App_ppv init_params) = Inr ''48.65%''"
  by (simp add: App_ppv_def init_params_def sensitivity_def specificity_def prevalence_def
      ppv_def number_divide_def fmtPct_def Number_toFixed_def toFixed_finite_def
      insert_point_def decimal.simps digit_char_def Let_def)

subsection \<open>The population projector\<close>



text \<open>
  C8. For every population \<open>N\<close>, a natural number, and every sensitivity, specificity and
  prevalence between 0 and 1, each of the four cells TP, FP, TN and FN is a non-negative
  integer: a rounded share \<open>round (d * f)\<close> of a count \<open>d\<close> lies between 0 and \<open>d\<close>, so
  neither complement goes below zero.
\<close>

theorem cells_nonneg_integers:
  assumes "0 \<le> s" "s \<le> 1" "0 \<le> c" "c \<le> 1" "0 \<le> p" "p \<le> 1"
  shows "TP (ConfusionOutline s c p (of_nat N)) \<in> \<nat>
       \<and> FP (ConfusionOutline s c p (of_nat N)) \<in> \<nat>
       \<and> TN (ConfusionOutline s c p (of_nat N)) \<in> \<nat>
       \<and> FN (ConfusionOutline s c p (of_nat N)) \<in> \<nat>"
proof -
  define d where "d = \<lfloor>of_int (int N) * p + 1 / 2\<rfloor>"
  define h where "h = int N - d"
  define tp where "tp = \<lfloor>of_int d * s + 1 / 2\<rfloor>"
  define tn where "tn = \<lfloor>of_int h * c + 1 / 2\<rfloor>"
  have d0: "0 \<le> d" unfolding d_def using assms by (intro round_frac_nonneg) simp_all
  have dN: "d \<le> int N" unfolding d_def using assms by (intro round_frac_le) simp_all
  have h0: "0 \<le> h" using dN by (simp add: h_def)
  have tp0: "0 \<le> tp" unfolding tp_def using d0 assms by (intro round_frac_nonneg)
  have tpd: "tp \<le> d" unfolding tp_def using d0 assms by (intro round_frac_le)
  have tn0: "0 \<le> tn" unfolding tn_def using h0 assms by (intro round_frac_nonneg)
  have tnh: "tn \<le> h" unfolding tn_def using h0 assms by (intro round_frac_le)
  have eq: "ConfusionOutline s c p (of_nat N) =
      \<lparr>TP = of_int tp, FP = of_int (h - tn), TN = of_int tn, FN = of_int (d - tp)\<rparr>"
    by (simp add: ConfusionOutline_ints Let_def d_def h_def tp_def tn_def)
  have "(of_int tp :: real) \<in> \<nat>" using tp0 by (rule of_int_nonneg_Nats)
  moreover have "(of_int (h - tn) :: real) \<in> \<nat>" using tnh by (intro of_int_nonneg_Nats) simp
  moreover have "(of_int tn :: real) \<in> \<nat>" using tn0 by (rule of_int_nonneg_Nats)
  moreover have "(of_int (d - tp) :: real) \<in> \<nat>" using tpd by (intro of_int_nonneg_Nats) simp
  ultimately show ?thesis unfolding eq by simp
qed

theorem cells_nonneg_integers_witness:
  "(0::real) \<le> 9 / 10 \<and> (9 / 10 :: real) \<le> 1 \<and> (0::real) \<le> 95 / 100 \<and> (95 / 100 :: real) \<le> 1
   \<and> (0::real) \<le> 5 / 100 \<and> (5 / 100 :: real) \<le> 1
   \<and> TP (ConfusionOutline (9 / 10) (95 / 100) (5 / 100) (of_nat 10000)) \<in> \<nat>
   \<and> FP (ConfusionOutline (9 / 10) (95 / 100) (5 / 100) (of_nat 10000)) \<in> \<nat>
   \<and> TN (ConfusionOutline (9 / 10) (95 / 100) (5 / 100) (of_nat 10000)) \<in> \<nat>
   \<and> FN (ConfusionOutline (9 / 10) (95 / 100) (5 / 100) (of_nat 10000)) \<in> \<nat>"
  using cells_nonneg_integers [of "9 / 10" "95 / 100" "5 / 100" 10000] by simp

text \<open>
  C9. Two runs of the projector with the same sensitivity, prevalence and population give
  the same TP and FN whatever their specificities; two runs with the same specificity,
  prevalence and population give the same TN and FP whatever their sensitivities.
\<close>

theorem cells_independence:
  "TP (ConfusionOutline s c1 p n) = TP (ConfusionOutline s c2 p n)
   \<and> FN (ConfusionOutline s c1 p n) = FN (ConfusionOutline s c2 p n)
   \<and> TN (ConfusionOutline s1 c p n) = TN (ConfusionOutline s2 c p n)
   \<and> FP (ConfusionOutline s1 c p n) = FP (ConfusionOutline s2 c p n)"
  by (simp add: ConfusionOutline_def Let_def)

subsection \<open>The parameter store\<close>

text \<open>
  C10. Each of the three setters changes only its own percentage: after a set, whether
  called directly or through the \<^verbatim>\<open>onChange\<close> of its control, the other two percentages
  are what they were, and the one set has the value given.
\<close>

theorem setters_frame:
  "specificityPct (setSensitivityPct v st) = specificityPct st
   \<and> prevalencePct (setSensitivityPct v st) = prevalencePct st
   \<and> sensitivityPct (setSpecificityPct v st) = sensitivityPct st
   \<and> prevalencePct (setSpecificityPct v st) = prevalencePct st
   \<and> sensitivityPct (setPrevalencePct v st) = sensitivityPct st
   \<and> specificityPct (setPrevalencePct v st) = specificityPct st
   \<and> sensitivityPct (setSensitivityPct v st) = v
   \<and> specificityPct (setSpecificityPct v st) = v
   \<and> prevalencePct (setPrevalencePct v st) = v
   \<and> Control_onChange SensitivityControl v st = st\<lparr>sensitivityPct := v\<rparr>
   \<and> Control_onChange SpecificityControl v st = st\<lparr>specificityPct := v\<rparr>
   \<and> Control_onChange PrevalenceControl v st = st\<lparr>prevalencePct := v\<rparr>"
  by (simp add: setSensitivityPct_def setSpecificityPct_def setPrevalencePct_def)

subsection \<open>The display formatter\<close>




end
